theory Spec2Isabelle
  imports Complex_Main "HOL-Library.Word"
begin

unbundle bit_operations_syntax

section \<open>Python values\<close>

text \<open>
  A Python \<open>bytes\<close> object is a list of 8-bit words; indexing it yields a Python
  integer, which is unbounded and therefore an \<open>int\<close>. A Python \<open>str\<close> is the
  \<open>char list\<close> of its UTF-8 encoding, so that \<open>str.encode()\<close> and
  \<open>bytes.decode()\<close> only change the type of the elements. The exceptions that the
  two functions of \<open>totp_2fa_generator.py\<close> can raise are the constructors of \<open>error\<close>.
\<close>

type_synonym byte = "8 word"

datatype error = ZeroDivisionError | OverflowError | ValueError | IndexError

definition encode :: "string \<Rightarrow> byte list" where
  "encode s = map (\<lambda>c. word_of_nat (of_char c)) s"

definition decode :: "byte list \<Rightarrow> string" where
  "decode bs = map (\<lambda>b. char_of (unat b)) bs"

text \<open>\<open>b[i]\<close> on a bytes object: a negative index counts from the end.\<close>

definition getitem :: "byte list \<Rightarrow> int \<Rightarrow> error + int" where
  "getitem b i =
     (let n = int (length b); j = (if i < 0 then i + n else i)
      in if j < 0 \<or> n \<le> j then Inl IndexError else Inr (uint (b ! nat j)))"

text \<open>\<open>n.to_bytes(len, 'big')\<close> with the default \<open>signed=False\<close>.\<close>

definition to_bytes :: "int \<Rightarrow> nat \<Rightarrow> error + byte list" where
  "to_bytes n len =
     (if n < 0 then Inl OverflowError
      else if 2 ^ (8 * len) \<le> n then Inl OverflowError
      else Inr (map (\<lambda>i. word_of_int (n div 256 ^ i)) (rev [0..<len])))"

text \<open>\<open>str(n)\<close> for an integer, and \<open>s.rjust(width, fill)\<close>.\<close>

fun str_nat :: "nat \<Rightarrow> string" where
  "str_nat n =
     (if n < 10 then [char_of (48 + n)] else str_nat (n div 10) @ [char_of (48 + n mod 10)])"

declare str_nat.simps [simp del]

definition str :: "int \<Rightarrow> string" where
  "str n = (if n < 0 then CHR ''-'' # str_nat (nat (- n)) else str_nat (nat n))"

definition rjust :: "string \<Rightarrow> nat \<Rightarrow> char \<Rightarrow> string" where
  "rjust s width fill = replicate (width - length s) fill @ s"

section \<open>The hash functions behind \<open>hmac.digest\<close>\<close>

text \<open>
  \<open>hmac\<close> and \<open>hashlib\<close> belong to the Python standard library. They are modelled
  after the documents they implement: FIPS 180-4 for the secure hash algorithms and
  RFC 2104 for the keyed construction. A \<open>w\<close>-bit word is a natural number below
  \<open>2 ^ w\<close>, with the reduction modulo \<open>2 ^ w\<close> written out.
\<close>

subsection \<open>Operations on words, message padding\<close>

definition wadd :: "nat \<Rightarrow> nat \<Rightarrow> nat \<Rightarrow> nat" where
  "wadd w x y = (x + y) mod 2 ^ w"

definition wnot :: "nat \<Rightarrow> nat \<Rightarrow> nat" where
  "wnot w x = 2 ^ w - 1 - x"

definition wshl :: "nat \<Rightarrow> nat \<Rightarrow> nat \<Rightarrow> nat" where
  "wshl w n x = (x * 2 ^ n) mod 2 ^ w"

definition wshr :: "nat \<Rightarrow> nat \<Rightarrow> nat" where
  "wshr n x = x div 2 ^ n"

definition wrotl :: "nat \<Rightarrow> nat \<Rightarrow> nat \<Rightarrow> nat" where
  "wrotl w n x = wshl w n x OR wshr (w - n) x"

definition wrotr :: "nat \<Rightarrow> nat \<Rightarrow> nat \<Rightarrow> nat" where
  "wrotr w n x = wshr n x OR wshl w (w - n) x"

definition be_word :: "byte list \<Rightarrow> nat" where
  "be_word bs = foldl (\<lambda>x b. 256 * x + unat b) 0 bs"

definition word_bytes :: "nat \<Rightarrow> nat \<Rightarrow> byte list" where
  "word_bytes n x = map (\<lambda>i. word_of_nat (x div 256 ^ i)) (rev [0..<n])"

fun chunks :: "nat \<Rightarrow> nat \<Rightarrow> 'a list \<Rightarrow> 'a list list" where
  "chunks 0 n xs = []"
| "chunks (Suc k) n xs = take n xs # chunks k n (drop n xs)"

definition blocks :: "nat \<Rightarrow> 'a list \<Rightarrow> 'a list list" where
  "blocks n xs = chunks (length xs div n) n xs"

text \<open>
  Padding to a multiple of \<open>bs\<close> bytes (64 or 128): the byte \<open>0x80\<close>, zero bytes, and
  the length of the message in bits as a big-endian field of \<open>bs div 8\<close> bytes.
\<close>

definition sha_pad :: "nat \<Rightarrow> byte list \<Rightarrow> byte list" where
  "sha_pad bs m =
     m @ [0x80] @ replicate ((2 * bs - 1 - bs div 8 - length m mod bs) mod bs) 0
       @ word_bytes (bs div 8) (8 * length m)"

subsection \<open>SHA-1\<close>

type_synonym sha1_state = "nat \<times> nat \<times> nat \<times> nat \<times> nat"

definition sha1_f :: "nat \<Rightarrow> nat \<Rightarrow> nat \<Rightarrow> nat \<Rightarrow> nat" where
  "sha1_f t b c d =
     (if t < 20 then (b AND c) OR (wnot 32 b AND d)
      else if t < 40 then b XOR c XOR d
      else if t < 60 then (b AND c) OR (b AND d) OR (c AND d)
      else b XOR c XOR d)"

definition sha1_k :: "nat \<Rightarrow> nat" where
  "sha1_k t =
     (if t < 20 then 0x5A827999 else if t < 40 then 0x6ED9EBA1
      else if t < 60 then 0x8F1BBCDC else 0xCA62C1D6)"

text \<open>
  Round \<open>t\<close>. The message schedule is a window of sixteen words: its head is
  \<open>W\<^sub>t\<close>, and \<open>W\<^sub>t\<^sub>+\<^sub>1\<^sub>6\<close> is appended.
\<close>

fun sha1_step :: "nat list \<times> sha1_state \<Rightarrow> nat \<Rightarrow> nat list \<times> sha1_state" where
  "sha1_step (ws, a, b, c, d, e) t =
     (tl ws @ [wrotl 32 1 (ws ! 13 XOR ws ! 8 XOR ws ! 2 XOR ws ! 0)],
      wadd 32 (wadd 32 (wadd 32 (wadd 32 (wrotl 32 5 a) (sha1_f t b c d)) e) (sha1_k t)) (ws ! 0),
      a, wrotl 32 30 b, c, d)"

fun sha1_add :: "sha1_state \<Rightarrow> sha1_state \<Rightarrow> sha1_state" where
  "sha1_add (h0, h1, h2, h3, h4) (a, b, c, d, e) =
     (wadd 32 h0 a, wadd 32 h1 b, wadd 32 h2 c, wadd 32 h3 d, wadd 32 h4 e)"

definition sha1_block :: "sha1_state \<Rightarrow> byte list \<Rightarrow> sha1_state" where
  "sha1_block s blk =
     sha1_add s (snd (foldl sha1_step (map be_word (chunks 16 4 blk), s) [0..<80]))"

definition sha1_init :: sha1_state where
  "sha1_init = (0x67452301, 0xEFCDAB89, 0x98BADCFE, 0x10325476, 0xC3D2E1F0)"

fun sha1_words :: "sha1_state \<Rightarrow> nat list" where
  "sha1_words (h0, h1, h2, h3, h4) = [h0, h1, h2, h3, h4]"

definition sha1 :: "byte list \<Rightarrow> byte list" where
  "sha1 m =
     concat (map (word_bytes 4)
       (sha1_words (foldl sha1_block sha1_init (blocks 64 (sha_pad 64 m)))))"

subsection \<open>SHA-224, SHA-256, SHA-384 and SHA-512\<close>

text \<open>
  The four functions share one compression function, on words of \<open>w = 32\<close> bits
  (SHA-224, SHA-256) or \<open>w = 64\<close> bits (SHA-384, SHA-512); only the rotation
  amounts, the constants and the initial values depend on \<open>w\<close>.
\<close>

type_synonym sha2_state = "nat \<times> nat \<times> nat \<times> nat \<times> nat \<times> nat \<times> nat \<times> nat"

definition ch :: "nat \<Rightarrow> nat \<Rightarrow> nat \<Rightarrow> nat \<Rightarrow> nat" where
  "ch w x y z = (x AND y) XOR (wnot w x AND z)"

definition maj :: "nat \<Rightarrow> nat \<Rightarrow> nat \<Rightarrow> nat" where
  "maj x y z = (x AND y) XOR (x AND z) XOR (y AND z)"

definition bsig0 :: "nat \<Rightarrow> nat \<Rightarrow> nat" where
  "bsig0 w x =
     (if w = 32 then wrotr w 2 x XOR wrotr w 13 x XOR wrotr w 22 x
      else wrotr w 28 x XOR wrotr w 34 x XOR wrotr w 39 x)"

definition bsig1 :: "nat \<Rightarrow> nat \<Rightarrow> nat" where
  "bsig1 w x =
     (if w = 32 then wrotr w 6 x XOR wrotr w 11 x XOR wrotr w 25 x
      else wrotr w 14 x XOR wrotr w 18 x XOR wrotr w 41 x)"

definition ssig0 :: "nat \<Rightarrow> nat \<Rightarrow> nat" where
  "ssig0 w x =
     (if w = 32 then wrotr w 7 x XOR wrotr w 18 x XOR wshr 3 x
      else wrotr w 1 x XOR wrotr w 8 x XOR wshr 7 x)"

definition ssig1 :: "nat \<Rightarrow> nat \<Rightarrow> nat" where
  "ssig1 w x =
     (if w = 32 then wrotr w 17 x XOR wrotr w 19 x XOR wshr 10 x
      else wrotr w 19 x XOR wrotr w 61 x XOR wshr 6 x)"

text \<open>
  The eighty constants of SHA-512: the first 64 bits of the fractional parts of the
  cube roots of the first eighty primes. The sixty-four constants of SHA-256 are the
  first 32 bits of the first sixty-four of the same numbers.
\<close>

definition sha512_k :: "nat list" where
  "sha512_k =
     [0x428A2F98D728AE22, 0x7137449123EF65CD, 0xB5C0FBCFEC4D3B2F, 0xE9B5DBA58189DBBC,
      0x3956C25BF348B538, 0x59F111F1B605D019, 0x923F82A4AF194F9B, 0xAB1C5ED5DA6D8118,
      0xD807AA98A3030242, 0x12835B0145706FBE, 0x243185BE4EE4B28C, 0x550C7DC3D5FFB4E2,
      0x72BE5D74F27B896F, 0x80DEB1FE3B1696B1, 0x9BDC06A725C71235, 0xC19BF174CF692694,
      0xE49B69C19EF14AD2, 0xEFBE4786384F25E3, 0x0FC19DC68B8CD5B5, 0x240CA1CC77AC9C65,
      0x2DE92C6F592B0275, 0x4A7484AA6EA6E483, 0x5CB0A9DCBD41FBD4, 0x76F988DA831153B5,
      0x983E5152EE66DFAB, 0xA831C66D2DB43210, 0xB00327C898FB213F, 0xBF597FC7BEEF0EE4,
      0xC6E00BF33DA88FC2, 0xD5A79147930AA725, 0x06CA6351E003826F, 0x142929670A0E6E70,
      0x27B70A8546D22FFC, 0x2E1B21385C26C926, 0x4D2C6DFC5AC42AED, 0x53380D139D95B3DF,
      0x650A73548BAF63DE, 0x766A0ABB3C77B2A8, 0x81C2C92E47EDAEE6, 0x92722C851482353B,
      0xA2BFE8A14CF10364, 0xA81A664BBC423001, 0xC24B8B70D0F89791, 0xC76C51A30654BE30,
      0xD192E819D6EF5218, 0xD69906245565A910, 0xF40E35855771202A, 0x106AA07032BBD1B8,
      0x19A4C116B8D2D0C8, 0x1E376C085141AB53, 0x2748774CDF8EEB99, 0x34B0BCB5E19B48A8,
      0x391C0CB3C5C95A63, 0x4ED8AA4AE3418ACB, 0x5B9CCA4F7763E373, 0x682E6FF3D6B2B8A3,
      0x748F82EE5DEFB2FC, 0x78A5636F43172F60, 0x84C87814A1F0AB72, 0x8CC702081A6439EC,
      0x90BEFFFA23631E28, 0xA4506CEBDE82BDE9, 0xBEF9A3F7B2C67915, 0xC67178F2E372532B,
      0xCA273ECEEA26619C, 0xD186B8C721C0C207, 0xEADA7DD6CDE0EB1E, 0xF57D4F7FEE6ED178,
      0x06F067AA72176FBA, 0x0A637DC5A2C898A6, 0x113F9804BEF90DAE, 0x1B710B35131C471B,
      0x28DB77F523047D84, 0x32CAAB7B40C72493, 0x3C9EBE0A15C9BEBC, 0x431D67C49C100D4C,
      0x4CC5D4BECB3E42B6, 0x597F299CFC657E2A, 0x5FCB6FAB3AD6FAEC, 0x6C44198C4A475817]"

definition sha2_k :: "nat \<Rightarrow> nat list" where
  "sha2_k w = (if w = 32 then map (\<lambda>k. k div 2 ^ 32) (take 64 sha512_k) else sha512_k)"

text \<open>
  One round, with round constant \<open>k\<close>; the window of the message schedule is as in
  SHA-1.
\<close>

definition sha2_t1 :: "nat \<Rightarrow> nat \<Rightarrow> nat \<Rightarrow> nat \<Rightarrow> nat \<Rightarrow> nat \<Rightarrow> nat \<Rightarrow> nat" where
  "sha2_t1 w e f g h k wt =
     wadd w (wadd w (wadd w (wadd w h (bsig1 w e)) (ch w e f g)) k) wt"

definition sha2_t2 :: "nat \<Rightarrow> nat \<Rightarrow> nat \<Rightarrow> nat \<Rightarrow> nat" where
  "sha2_t2 w a b c = wadd w (bsig0 w a) (maj a b c)"

fun sha2_rotate :: "nat \<Rightarrow> nat \<Rightarrow> nat \<Rightarrow> sha2_state \<Rightarrow> sha2_state" where
  "sha2_rotate w t1 t2 (a, b, c, d, e, f, g, h) =
     (wadd w t1 t2, a, b, c, wadd w d t1, e, f, g)"

fun sha2_step :: "nat \<Rightarrow> nat list \<times> sha2_state \<Rightarrow> nat \<Rightarrow> nat list \<times> sha2_state" where
  "sha2_step w (ws, a, b, c, d, e, f, g, h) k =
     (tl ws @ [wadd w (wadd w (wadd w (ssig1 w (ws ! 14)) (ws ! 9)) (ssig0 w (ws ! 1))) (ws ! 0)],
      sha2_rotate w (sha2_t1 w e f g h k (ws ! 0)) (sha2_t2 w a b c) (a, b, c, d, e, f, g, h))"

fun sha2_add :: "nat \<Rightarrow> sha2_state \<Rightarrow> sha2_state \<Rightarrow> sha2_state" where
  "sha2_add w (h0, h1, h2, h3, h4, h5, h6, h7) (a, b, c, d, e, f, g, h) =
     (wadd w h0 a, wadd w h1 b, wadd w h2 c, wadd w h3 d,
      wadd w h4 e, wadd w h5 f, wadd w h6 g, wadd w h7 h)"

definition sha2_block :: "nat \<Rightarrow> sha2_state \<Rightarrow> byte list \<Rightarrow> sha2_state" where
  "sha2_block w s blk =
     sha2_add w s
       (snd (foldl (sha2_step w) (map be_word (chunks 16 (w div 8) blk), s) (sha2_k w)))"

fun sha2_words :: "sha2_state \<Rightarrow> nat list" where
  "sha2_words (h0, h1, h2, h3, h4, h5, h6, h7) = [h0, h1, h2, h3, h4, h5, h6, h7]"

text \<open>
  \<open>sha2 w iv n\<close>: words of \<open>w\<close> bits, initial value \<open>iv\<close>, and a digest of the first
  \<open>n\<close> words of the final state.
\<close>

definition sha2 :: "nat \<Rightarrow> sha2_state \<Rightarrow> nat \<Rightarrow> byte list \<Rightarrow> byte list" where
  "sha2 w iv n m =
     concat (map (word_bytes (w div 8))
       (take n (sha2_words (foldl (sha2_block w) iv (blocks (2 * w) (sha_pad (2 * w) m))))))"

text \<open>
  Initial values: the first 64 bits of the fractional parts of the square roots of
  the first eight primes (SHA-512) and of the ninth to sixteenth primes (SHA-384).
  SHA-256 takes the upper halves of the former, SHA-224 the lower halves of the latter.
\<close>

definition sha512_init :: sha2_state where
  "sha512_init =
     (0x6A09E667F3BCC908, 0xBB67AE8584CAA73B, 0x3C6EF372FE94F82B, 0xA54FF53A5F1D36F1,
      0x510E527FADE682D1, 0x9B05688C2B3E6C1F, 0x1F83D9ABFB41BD6B, 0x5BE0CD19137E2179)"

definition sha384_init :: sha2_state where
  "sha384_init =
     (0xCBBB9D5DC1059ED8, 0x629A292A367CD507, 0x9159015A3070DD17, 0x152FECD8F70E5939,
      0x67332667FFC00B31, 0x8EB44A8768581511, 0xDB0C2E0D64F98FA7, 0x47B5481DBEFA4FA4)"

fun upper_halves :: "sha2_state \<Rightarrow> sha2_state" where
  "upper_halves (h0, h1, h2, h3, h4, h5, h6, h7) =
     (h0 div 2 ^ 32, h1 div 2 ^ 32, h2 div 2 ^ 32, h3 div 2 ^ 32,
      h4 div 2 ^ 32, h5 div 2 ^ 32, h6 div 2 ^ 32, h7 div 2 ^ 32)"

fun lower_halves :: "sha2_state \<Rightarrow> sha2_state" where
  "lower_halves (h0, h1, h2, h3, h4, h5, h6, h7) =
     (h0 mod 2 ^ 32, h1 mod 2 ^ 32, h2 mod 2 ^ 32, h3 mod 2 ^ 32,
      h4 mod 2 ^ 32, h5 mod 2 ^ 32, h6 mod 2 ^ 32, h7 mod 2 ^ 32)"

definition sha224 :: "byte list \<Rightarrow> byte list" where
  "sha224 = sha2 32 (lower_halves sha384_init) 7"

definition sha256 :: "byte list \<Rightarrow> byte list" where
  "sha256 = sha2 32 (upper_halves sha512_init) 8"

definition sha384 :: "byte list \<Rightarrow> byte list" where
  "sha384 = sha2 64 sha384_init 6"

definition sha512 :: "byte list \<Rightarrow> byte list" where
  "sha512 = sha2 64 sha512_init 8"

subsection \<open>HMAC\<close>

datatype hash_alg = SHA1 | SHA224 | SHA256 | SHA384 | SHA512

fun hash :: "hash_alg \<Rightarrow> byte list \<Rightarrow> byte list" where
  "hash SHA1 = sha1"
| "hash SHA224 = sha224"
| "hash SHA256 = sha256"
| "hash SHA384 = sha384"
| "hash SHA512 = sha512"

fun block_size :: "hash_alg \<Rightarrow> nat" where
  "block_size SHA1 = 64"
| "block_size SHA224 = 64"
| "block_size SHA256 = 64"
| "block_size SHA384 = 128"
| "block_size SHA512 = 128"

fun digest_size :: "hash_alg \<Rightarrow> nat" where
  "digest_size SHA1 = 20"
| "digest_size SHA224 = 28"
| "digest_size SHA256 = 32"
| "digest_size SHA384 = 48"
| "digest_size SHA512 = 64"

text \<open>
  RFC 2104: a key longer than a block is hashed first, the key is filled with zero
  bytes to a block, and the message is hashed under the inner and the outer pad.
\<close>

definition hmac_key :: "hash_alg \<Rightarrow> byte list \<Rightarrow> byte list" where
  "hmac_key alg key =
     (let k = (if block_size alg < length key then hash alg key else key)
      in k @ replicate (block_size alg - length k) 0)"

definition hmac :: "hash_alg \<Rightarrow> byte list \<Rightarrow> byte list \<Rightarrow> byte list" where
  "hmac alg key msg =
     hash alg (map (\<lambda>b. b XOR 0x5C) (hmac_key alg key)
       @ hash alg (map (\<lambda>b. b XOR 0x36) (hmac_key alg key) @ msg))"

text \<open>
  \<open>hmac.digest(key, msg, digest)\<close> with the name of a hash function for \<open>digest\<close>.
  Every build of the library resolves the names below. Which further names it resolves
  (\<open>MD5\<close>, \<open>sha3_256\<close>, \<open>SHA-1\<close>, ...) depends on the cryptographic library it is
  linked with: \<open>more\<close> stands for that part, giving the keyed digest function for a
  name, or \<open>None\<close> where the name is unknown and \<open>hmac.digest\<close> raises \<open>ValueError\<close>.
\<close>

definition digest_names :: "(string \<times> hash_alg) list" where
  "digest_names =
     [(''SHA1'', SHA1), (''SHA224'', SHA224), (''SHA256'', SHA256),
      (''SHA384'', SHA384), (''SHA512'', SHA512),
      (''sha1'', SHA1), (''sha224'', SHA224), (''sha256'', SHA256),
      (''sha384'', SHA384), (''sha512'', SHA512)]"

type_synonym more_digests = "string \<Rightarrow> (byte list \<Rightarrow> byte list \<Rightarrow> byte list) option"

definition hmac_digest ::
  "more_digests \<Rightarrow> byte list \<Rightarrow> byte list \<Rightarrow> string \<Rightarrow> error + byte list" where
  "hmac_digest more key msg digest =
     (case map_of digest_names digest of
        Some alg \<Rightarrow> Inr (hmac alg key msg)
      | None \<Rightarrow> (case more digest of Some f \<Rightarrow> Inr (f key msg) | None \<Rightarrow> Inl ValueError))"

section \<open>\<open>generate_totp\<close>\<close>

text \<open>
  The function reads the clock: \<open>now\<close> is the value of \<open>time.time()\<close>, a real
  number of seconds. The quotient \<open>time.time() / period\<close> is taken exactly; the
  rounding of the floating-point division is outside this model. \<open>digits\<close> is a
  natural number: with a negative \<open>digits\<close> Python computes \<open>10**digits\<close> as a
  floating-point number. The definitions below follow the lines of the function.
\<close>

text \<open>Line 20: \<open>steps = math.floor(time.time() / period).to_bytes(8, 'big')\<close>.\<close>

definition time_steps :: "real \<Rightarrow> int \<Rightarrow> error + byte list" where
  "time_steps now period =
     (if period = 0 then Inl ZeroDivisionError
      else to_bytes \<lfloor>now / of_int period\<rfloor> 8)"

text \<open>Line 23: \<open>offset = hash_digest[-1] & 0xf\<close>.\<close>

definition offset_of :: "byte list \<Rightarrow> error + int" where
  "offset_of hash_digest =
     (case getitem hash_digest (- 1) of Inl e \<Rightarrow> Inl e | Inr l \<Rightarrow> Inr (l AND 0xf))"

text \<open>Lines 24 to 29: the four bytes at \<open>offset\<close>, read in this order.\<close>

definition binary_of :: "byte list \<Rightarrow> int \<Rightarrow> error + int" where
  "binary_of hash_digest offset =
     (case getitem hash_digest offset of Inl e \<Rightarrow> Inl e | Inr b0 \<Rightarrow>
      case getitem hash_digest (offset + 1) of Inl e \<Rightarrow> Inl e | Inr b1 \<Rightarrow>
      case getitem hash_digest (offset + 2) of Inl e \<Rightarrow> Inl e | Inr b2 \<Rightarrow>
      case getitem hash_digest (offset + 3) of Inl e \<Rightarrow> Inl e | Inr b3 \<Rightarrow>
        Inr (push_bit 24 (b0 AND 0x7f) OR push_bit 16 (b1 AND 0xff)
             OR push_bit 8 (b2 AND 0xff) OR (b3 AND 0xff)))"

text \<open>Line 30: \<open>str(binary % 10**digits).rjust(digits, '0')\<close>.\<close>

definition code_of :: "int \<Rightarrow> nat \<Rightarrow> string" where
  "code_of binary digits = rjust (str (binary mod 10 ^ digits)) digits CHR ''0''"

text \<open>Lines 21 to 30, from the counter on.\<close>

definition hotp :: "more_digests \<Rightarrow> byte list \<Rightarrow> byte list \<Rightarrow> nat \<Rightarrow> string \<Rightarrow> error + string" where
  "hotp more key steps digits algorithm =
     (case hmac_digest more key steps algorithm of Inl e \<Rightarrow> Inl e | Inr hash_digest \<Rightarrow>
      case offset_of hash_digest of Inl e \<Rightarrow> Inl e | Inr offset \<Rightarrow>
      case binary_of hash_digest offset of Inl e \<Rightarrow> Inl e | Inr binary \<Rightarrow>
        Inr (code_of binary digits))"

definition generate_totp ::
  "more_digests \<Rightarrow> real \<Rightarrow> string \<Rightarrow> nat \<Rightarrow> int \<Rightarrow> string \<Rightarrow> error + string" where
  "generate_totp more now secret digits period algorithm =
     (case time_steps now period of Inl e \<Rightarrow> Inl e | Inr steps \<Rightarrow>
        hotp more (encode secret) steps digits algorithm)"

section \<open>\<open>generate_totp_url\<close>\<close>

text \<open>
  \<open>base64.b32encode\<close> (RFC 4648): the bits of the input, most significant first and
  filled with zero bits to a multiple of five, are read in groups of five; a group
  selects a character of the alphabet, and \<open>=\<close> fills the text to a multiple of
  eight characters.
\<close>

definition b32_alphabet :: "byte list" where
  "b32_alphabet = encode ''ABCDEFGHIJKLMNOPQRSTUVWXYZ234567''"

text \<open>The \<open>n\<close> low bits of a number, most significant first, and the number of a bit list.\<close>

definition nat_bits :: "nat \<Rightarrow> nat \<Rightarrow> bool list" where
  "nat_bits n x = map (bit x) (rev [0..<n])"

definition bits_value :: "bool list \<Rightarrow> nat" where
  "bits_value bs = foldl (\<lambda>x b. 2 * x + of_bool b) 0 bs"

definition b32encode :: "byte list \<Rightarrow> byte list" where
  "b32encode s =
     (let bits = concat (map (\<lambda>b. nat_bits 8 (unat b)) s);
          padded = bits @ replicate ((5 - length bits mod 5) mod 5) False;
          chars = map (\<lambda>g. b32_alphabet ! bits_value g) (blocks 5 padded)
      in chars @ replicate ((8 - length chars mod 8) mod 8) 0x3D)"

text \<open>\<open>s.rstrip('=')\<close>.\<close>

definition rstrip_eq :: "string \<Rightarrow> string" where
  "rstrip_eq s = rev (dropWhile (\<lambda>c. c = CHR ''='') (rev s))"

text \<open>
  Lines 48 to 56. The f-string writes \<open>issuer\<close>, \<open>user\<close> and \<open>algorithm\<close> as they
  are, and \<open>digits\<close> and \<open>period\<close> as \<open>str\<close> writes an integer.
\<close>

definition generate_totp_url ::
  "string \<Rightarrow> string \<Rightarrow> string \<Rightarrow> string \<Rightarrow> int \<Rightarrow> int \<Rightarrow> string" where
  "generate_totp_url secret issuer user algorithm digits period =
     (let b32_encoded_secret = rstrip_eq (decode (b32encode (encode secret)))
      in ''otpauth://totp/'' @ issuer @ '':'' @ user
         @ ''?secret='' @ b32_encoded_secret
         @ ''&issuer='' @ issuer
         @ ''&algorithm='' @ algorithm
         @ ''&digits='' @ str digits
         @ ''&period='' @ str period)"

section \<open>What the specification says\<close>

text \<open>
  The definitions of this section are not taken from the code: they write down the
  words of the specification, for comparison with the functions above.
\<close>

subsection \<open>Dynamic truncation\<close>

text \<open>
  The offset is the low nibble of the last byte of the digest. The four bytes from the
  offset on, the first of them without its top bit, are the base-256 digits of
  \<open>binary\<close>, most significant first.
\<close>

definition spec_offset :: "byte list \<Rightarrow> nat" where
  "spec_offset digest = unat (last digest) mod 16"

definition spec_binary :: "byte list \<Rightarrow> nat" where
  "spec_binary digest =
     (let offset = spec_offset digest
      in unat (digest ! offset) mod 128 * 2 ^ 24 + unat (digest ! (offset + 1)) * 2 ^ 16
         + unat (digest ! (offset + 2)) * 2 ^ 8 + unat (digest ! (offset + 3)))"

text \<open>
  The number \<open>v\<close> in \<open>n\<close> decimal digits, leading zeros included. The code of
  \<open>digits\<close> digits is \<open>binary mod 10 ^ digits\<close> written this way (a single \<open>0\<close>
  for \<open>digits = 0\<close>, where padding adds nothing to the string \<open>0\<close>).
\<close>

definition spec_decimal :: "nat \<Rightarrow> nat \<Rightarrow> string" where
  "spec_decimal n v = map (\<lambda>i. char_of (48 + v div 10 ^ i mod 10)) (rev [0..<n])"

definition spec_hotp :: "byte list \<Rightarrow> nat \<Rightarrow> string" where
  "spec_hotp digest digits = spec_decimal (max 1 digits) (spec_binary digest mod 10 ^ digits)"


subsection \<open>Reading a provisioning URI back\<close>

text \<open>
  The query of a URI starts after the first \<open>?\<close>; its fields are separated by
  \<open>&\<close>, and a field is a name and a value separated by the first \<open>=\<close>. Nothing
  is percent-decoded, since \<open>generate_totp_url\<close> percent-encodes nothing.
\<close>

fun split_on :: "char \<Rightarrow> string \<Rightarrow> string list" where
  "split_on sep [] = [[]]"
| "split_on sep (c # cs) =
     (if c = sep then [] # split_on sep cs
      else (case split_on sep cs of [] \<Rightarrow> [[c]] | f # fs \<Rightarrow> (c # f) # fs))"

definition uri_query :: "string \<Rightarrow> string" where
  "uri_query uri = drop 1 (dropWhile (\<lambda>c. c \<noteq> CHR ''?'') uri)"

definition uri_fields :: "string \<Rightarrow> (string \<times> string) list" where
  "uri_fields uri =
     map (\<lambda>f. (takeWhile (\<lambda>c. c \<noteq> CHR ''='') f, drop 1 (dropWhile (\<lambda>c. c \<noteq> CHR ''='') f)))
       (split_on CHR ''&'' (uri_query uri))"

definition uri_field :: "string \<Rightarrow> string \<Rightarrow> string option" where
  "uri_field uri name = map_of (uri_fields uri) name"

text \<open>
  Decoding base32: the text is filled with \<open>=\<close> to a multiple of eight characters
  again; the characters before the padding select five bits each, and every full group
  of eight bits is a byte. A character outside the alphabet makes the text invalid.
\<close>

definition restore_padding :: "string \<Rightarrow> string" where
  "restore_padding t = t @ replicate ((8 - length t mod 8) mod 8) CHR ''=''"

definition b32_value :: "char \<Rightarrow> nat option" where
  "b32_value c = map_of (zip (decode b32_alphabet) [0..<32]) c"

definition b32decode :: "string \<Rightarrow> byte list option" where
  "b32decode t =
     (let chars = rstrip_eq t in
      if \<exists>c \<in> set chars. b32_value c = None then None
      else
        (let bits = concat (map (\<lambda>c. nat_bits 5 (the (b32_value c))) chars)
         in Some (map (\<lambda>g. word_of_nat (bits_value g))
                   (blocks 8 (take (8 * (length bits div 8)) bits)))))"

text \<open>Reading an integer written by \<open>str\<close>.\<close>

definition decimal_value :: "string \<Rightarrow> nat" where
  "decimal_value s = foldl (\<lambda>x c. 10 * x + (of_char c - 48)) 0 s"

definition int_of_str :: "string \<Rightarrow> int" where
  "int_of_str s =
     (case s of [] \<Rightarrow> 0
      | c # cs \<Rightarrow> if c = CHR ''-'' then - int (decimal_value cs) else int (decimal_value s))"

section \<open>Properties of the standard library functions\<close>

lemma length_word_bytes: "length (word_bytes n x) = n"
  by (simp add: word_bytes_def)

lemma length_concat_word_bytes: "length (concat (map (word_bytes n) xs)) = n * length xs"
  by (induction xs) (simp_all add: length_word_bytes)

lemma length_sha1_words: "length (sha1_words s) = 5"
  by (cases s rule: sha1_words.cases) simp

lemma length_sha2_words: "length (sha2_words s) = 8"
  by (cases s rule: sha2_words.cases) simp

lemma length_sha1: "length (sha1 m) = 20"
  by (simp add: sha1_def length_concat_word_bytes length_sha1_words)

lemma length_sha2: "n \<le> 8 \<Longrightarrow> length (sha2 w iv n m) = (w div 8) * n"
  by (simp add: sha2_def length_concat_word_bytes length_sha2_words)

lemma length_hash: "length (hash alg m) = digest_size alg"
  by (cases alg) (simp_all add: length_sha1 sha224_def sha256_def sha384_def sha512_def length_sha2)

lemma length_hmac: "length (hmac alg key msg) = digest_size alg"
  by (simp add: hmac_def length_hash)

lemma digest_size_ge: "20 \<le> digest_size alg"
  by (cases alg) simp_all

lemma getitem_last:
  "b \<noteq> [] \<Longrightarrow> getitem b (- 1) = Inr (uint (last b))"
  by (cases b rule: rev_cases) (simp_all add: getitem_def Let_def nth_append)

lemma getitem_nat:
  "i < length b \<Longrightarrow> getitem b (int i) = Inr (uint (b ! i))"
  by (simp add: getitem_def Let_def)

lemma and15_bounds: "0 \<le> (x::int) \<Longrightarrow> 0 \<le> x AND 0xf \<and> x AND 0xf \<le> 15"
  by (simp add: AND_upper2')

section \<open>Properties of \<open>generate_totp\<close>\<close>

lemma supported_name:
  "algorithm \<in> {''SHA1'', ''SHA256'', ''SHA512''} \<Longrightarrow>
     \<exists>alg. map_of digest_names algorithm = Some alg"
  by (auto simp: digest_names_def)

lemma hmac_digest_known:
  "map_of digest_names algorithm = Some alg \<Longrightarrow>
     hmac_digest more key msg algorithm = Inr (hmac alg key msg)"
  by (simp add: hmac_digest_def)

lemma getitem_in_range:
  "0 \<le> i \<Longrightarrow> i < int (length b) \<Longrightarrow> getitem b i = Inr (uint (b ! nat i))"
  by (simp add: getitem_def Let_def)

lemma offset_of_nonempty:
  "b \<noteq> [] \<Longrightarrow> offset_of b = Inr (uint (last b) AND 0xf)"
  by (simp add: offset_of_def getitem_last)

lemma low_nibble_bounds: "0 \<le> uint (x::byte) AND 0xf \<and> uint x AND 0xf \<le> 15"
  by (simp add: AND_upper2')

text \<open>
  Claim C9. For a digest that \<open>hmac.digest\<close> produces under SHA-1, SHA-256 or SHA-512,
  dynamic truncation stays in bounds: the digest has at least 20 bytes, the offset is
  between 0 and 15, \<open>offset + 4\<close> does not exceed the length of the digest, and none
  of the four reads \<open>hash_digest[offset]\<close> to \<open>hash_digest[offset + 3]\<close> raises
  \<open>IndexError\<close>.
\<close>

theorem truncation_in_bounds:
  assumes "algorithm \<in> {''SHA1'', ''SHA256'', ''SHA512''}"
  shows "\<exists>hash_digest offset b0 b1 b2 b3.
           hmac_digest more key msg algorithm = Inr hash_digest
         \<and> 20 \<le> length hash_digest
         \<and> offset_of hash_digest = Inr offset
         \<and> 0 \<le> offset \<and> offset \<le> 15 \<and> offset + 4 \<le> int (length hash_digest)
         \<and> getitem hash_digest offset = Inr b0
         \<and> getitem hash_digest (offset + 1) = Inr b1
         \<and> getitem hash_digest (offset + 2) = Inr b2
         \<and> getitem hash_digest (offset + 3) = Inr b3"
proof -
  from assms obtain alg where alg: "map_of digest_names algorithm = Some alg"
    using supported_name by blast
  define d where "d = hmac alg key msg"
  define off where "off = uint (last d) AND 0xf"
  have len: "20 \<le> length d"
    unfolding d_def using digest_size_ge [of alg] by (simp add: length_hmac)
  then have ne: "d \<noteq> []" by auto
  have off: "0 \<le> off" "off \<le> 15"
    unfolding off_def using low_nibble_bounds [of "last d"] by simp_all
  with len have rng: "off + 3 < int (length d)" by linarith
  have "hmac_digest more key msg algorithm = Inr d"
    unfolding d_def by (rule hmac_digest_known [OF alg])
  moreover have "offset_of d = Inr off"
    unfolding off_def by (rule offset_of_nonempty [OF ne])
  moreover have "getitem d off = Inr (uint (d ! nat off))"
    using off rng by (intro getitem_in_range) linarith+
  moreover have "getitem d (off + 1) = Inr (uint (d ! nat (off + 1)))"
    using off rng by (intro getitem_in_range) linarith+
  moreover have "getitem d (off + 2) = Inr (uint (d ! nat (off + 2)))"
    using off rng by (intro getitem_in_range) linarith+
  moreover have "getitem d (off + 3) = Inr (uint (d ! nat (off + 3)))"
    using off rng by (intro getitem_in_range) linarith+
  ultimately show ?thesis
    using len off rng by (intro exI [of _ d] exI [of _ off] exI conjI) simp_all
qed

theorem truncation_in_bounds_witness:
  "''SHA1'' \<in> {''SHA1'', ''SHA256'', ''SHA512''}
   \<and> (\<exists>hash_digest offset b0 b1 b2 b3.
           hmac_digest (\<lambda>_. None) [] [0, 0, 0, 0, 0, 0, 0, 1] ''SHA1'' = Inr hash_digest
         \<and> 20 \<le> length hash_digest
         \<and> offset_of hash_digest = Inr offset
         \<and> 0 \<le> offset \<and> offset \<le> 15 \<and> offset + 4 \<le> int (length hash_digest)
         \<and> getitem hash_digest offset = Inr b0
         \<and> getitem hash_digest (offset + 1) = Inr b1
         \<and> getitem hash_digest (offset + 2) = Inr b2
         \<and> getitem hash_digest (offset + 3) = Inr b3)"
  using truncation_in_bounds [of "''SHA1''" "\<lambda>_. None" "[]" "[0, 0, 0, 0, 0, 0, 0, 1]"] by simp





lemma to_bytes_ok:
  "0 \<le> n \<Longrightarrow> n < 2 ^ (8 * len) \<Longrightarrow> \<exists>bs. to_bytes n len = Inr bs"
  by (simp add: to_bytes_def)



text \<open>
  Claim C3, as the code has it. \<open>generate_totp\<close> validates nothing itself: with
  \<open>period = 0\<close> the division raises \<open>ZeroDivisionError\<close>; with a negative period
  and a positive clock reading the counter is negative and \<open>to_bytes\<close> raises
  \<open>OverflowError\<close>; with a name that \<open>hmac.digest\<close> does not resolve, and a valid
  counter, \<open>hmac.digest\<close> raises \<open>ValueError\<close>. In none of these cases a code string
  is returned.
\<close>

theorem rejected_parameters:
  "(period = 0 \<longrightarrow>
      generate_totp more now secret digits period algorithm = Inl ZeroDivisionError)
   \<and> (period < 0 \<and> 0 < now \<longrightarrow>
      generate_totp more now secret digits period algorithm = Inl OverflowError)
   \<and> (0 < period \<and> 0 \<le> now \<and> now < 2 ^ 64 * of_int period
        \<and> map_of digest_names algorithm = None \<and> more algorithm = None \<longrightarrow>
      generate_totp more now secret digits period algorithm = Inl ValueError)"
proof (intro conjI impI)
  assume "period = 0"
  then show "generate_totp more now secret digits period algorithm = Inl ZeroDivisionError"
    by (simp add: generate_totp_def time_steps_def)
next
  assume a: "period < 0 \<and> 0 < now"
  then have "now / of_int period < 0"
    by (simp add: divide_pos_neg)
  then have "\<lfloor>now / of_int period\<rfloor> < 0"
    by linarith
  with a show "generate_totp more now secret digits period algorithm = Inl OverflowError"
    by (simp add: generate_totp_def time_steps_def to_bytes_def)
next
  assume a: "0 < period \<and> 0 \<le> now \<and> now < 2 ^ 64 * of_int period
        \<and> map_of digest_names algorithm = None \<and> more algorithm = None"
  then have "now / of_int period < 2 ^ 64"
    by (simp add: pos_divide_less_eq)
  then have "\<lfloor>now / of_int period\<rfloor> < 2 ^ 64"
    by (simp add: floor_less_iff)
  moreover from a have "0 \<le> \<lfloor>now / of_int period\<rfloor>"
    by simp
  ultimately obtain steps where "to_bytes \<lfloor>now / of_int period\<rfloor> 8 = Inr steps"
    using to_bytes_ok [of "\<lfloor>now / of_int period\<rfloor>" 8] by auto
  with a have "time_steps now period = Inr steps"
    by (simp add: time_steps_def)
  with a show "generate_totp more now secret digits period algorithm = Inl ValueError"
    by (simp add: generate_totp_def hotp_def hmac_digest_def)
qed

theorem rejected_parameters_witness:
  "generate_totp (\<lambda>_. None) 59 ''12345678901234567890'' 6 0 ''SHA1'' = Inl ZeroDivisionError
   \<and> generate_totp (\<lambda>_. None) 59 ''12345678901234567890'' 6 (- 30) ''SHA1'' = Inl OverflowError
   \<and> generate_totp (\<lambda>_. None) 59 ''12345678901234567890'' 6 30 ''CRC32'' = Inl ValueError"
  using rejected_parameters [of 0 "\<lambda>_. None" 59 "''12345678901234567890''" 6 "''SHA1''"]
    rejected_parameters [of "- 30" "\<lambda>_. None" 59 "''12345678901234567890''" 6 "''SHA1''"]
    rejected_parameters [of 30 "\<lambda>_. None" 59 "''12345678901234567890''" 6 "''CRC32''"]
  by (simp add: digest_names_def)

end
